theory Spec2Isabelle
  imports Complex_Main "HOL-Library.Sublist"
begin

section \<open>Python values and faults\<close>

text \<open>
  The dashboard script \<^verbatim>\<open>app2.py\<close> moves Python values between a JSON response, two
  pandas tables and a CSV export. A double that is not NaN is a value of the type parameter
  \<open>'f\<close>; NaN, the missing value of pandas, is a constructor of its own.
\<close>

datatype py_error = KeyError | IndexError | TypeError | ValueError | OverflowError

datatype 'f pyfloat = NaN | Val 'f

datatype 'f pyval =
    PNone
  | PBool bool
  | PInt int
  | PFloat "'f pyfloat"
  | PStr string
  | PList "'f pyval list"
  | PDict "(string \<times> 'f pyval) list"

text \<open>Sequencing of steps that may raise: the first fault aborts what follows.\<close>

definition bindE :: "py_error + 'a \<Rightarrow> ('a \<Rightarrow> py_error + 'b) \<Rightarrow> py_error + 'b" where
  "bindE m k = (case m of Inl e \<Rightarrow> Inl e | Inr x \<Rightarrow> k x)"

text \<open>What pandas counts as a missing value: \<^verbatim>\<open>None\<close> or NaN.\<close>

fun isna :: "'f pyval \<Rightarrow> bool" where
  "isna PNone = True"
| "isna (PFloat NaN) = True"
| "isna _ = False"

section \<open>Tables\<close>

text \<open>
  A pandas DataFrame: the column labels in order, and the rows, each an index label with
  one cell per column.
\<close>

record 'f dataframe =
  columns :: "string list"
  rows :: "(nat \<times> 'f pyval list) list"

definition wf_df :: "'f dataframe \<Rightarrow> bool" where
  "wf_df df = (distinct (columns df) \<and>
     list_all (\<lambda>r. length (snd r) = length (columns df)) (rows df))"

text \<open>Position of a column label, the first one from the left.\<close>

fun col_pos :: "string list \<Rightarrow> string \<Rightarrow> nat option" where
  "col_pos [] c = None"
| "col_pos (x # xs) c = (if x = c then Some 0 else map_option Suc (col_pos xs c))"

text \<open>\<^verbatim>\<open>df[c]\<close>: the cells of column \<open>c\<close>, top to bottom; a missing label raises KeyError.\<close>

definition getcol :: "'f dataframe \<Rightarrow> string \<Rightarrow> py_error + 'f pyval list" where
  "getcol df c = (case col_pos (columns df) c of
       None \<Rightarrow> Inl KeyError
     | Some k \<Rightarrow> Inr (map (\<lambda>r. snd r ! k) (rows df)))"

text \<open>\<^verbatim>\<open>df.iloc[i][c]\<close> where it exists: the cell of the row at position \<open>i\<close> under the label \<open>c\<close>.\<close>

definition cell_at :: "'f dataframe \<Rightarrow> nat \<Rightarrow> string \<Rightarrow> 'f pyval option" where
  "cell_at df i c =
     (if i < length (rows df) then map_option (\<lambda>k. snd (rows df ! i) ! k) (col_pos (columns df) c)
      else None)"

text \<open>
  \<^verbatim>\<open>series == True\<close> and \<^verbatim>\<open>series == False\<close>, cell by cell. Python's \<^verbatim>\<open>bool\<close> is a
  subclass of \<^verbatim>\<open>int\<close>, so the numbers 1 and 0 compare equal to the two truth values;
  NaN, \<^verbatim>\<open>None\<close>, strings, lists and dicts compare equal to neither.
\<close>

fun eq_bool :: "('f::zero_neq_one) pyval \<Rightarrow> bool \<Rightarrow> bool" where
  "eq_bool (PBool x) b = (x = b)"
| "eq_bool (PInt i) b = (i = (if b then 1 else 0))"
| "eq_bool (PFloat (Val x)) b = (x = (if b then 1 else 0))"
| "eq_bool (PFloat NaN) b = False"
| "eq_bool PNone b = False"
| "eq_bool (PStr s) b = False"
| "eq_bool (PList xs) b = False"
| "eq_bool (PDict kvs) b = False"

text \<open>\<^verbatim>\<open>df[mask]\<close>: the rows whose mask entry is true, labels and cells as they were.\<close>

definition boolean_index :: "'f dataframe \<Rightarrow> bool list \<Rightarrow> 'f dataframe" where
  "boolean_index df msk = df\<lparr>rows := map fst (filter snd (zip (rows df) msk))\<rparr>"

definition flag_col :: string where
  "flag_col = ''is_potentially_hazardous_asteroid''"

text \<open>Lines 59 to 62 of the script: the sidebar's selection applied to the combined table.\<close>

definition hazard_filter ::
  "string \<Rightarrow> ('f::zero_neq_one) dataframe \<Rightarrow> py_error + 'f dataframe" where
  "hazard_filter sel df =
     (if sel = ''Yes'' then
        bindE (getcol df flag_col) (\<lambda>col. Inr (boolean_index df (map (\<lambda>c. eq_bool c True) col)))
      else if sel = ''No'' then
        bindE (getcol df flag_col) (\<lambda>col. Inr (boolean_index df (map (\<lambda>c. eq_bool c False) col)))
      else Inr df)"

section \<open>Subscripts, iteration and \<^verbatim>\<open>float()\<close>\<close>

text \<open>
  The library functions that read text as a number are parameters of the model:
  \<open>str_to_float\<close> is Python's \<^verbatim>\<open>float\<close> on a \<^verbatim>\<open>str\<close> (\<open>None\<close> where it raises
  ValueError), \<open>int_to_float\<close> is \<^verbatim>\<open>float\<close> on an \<^verbatim>\<open>int\<close> (\<open>None\<close> where it raises
  OverflowError), \<open>to_numeric_text\<close> is the parser of \<^verbatim>\<open>pd.to_numeric\<close> on one text cell
  (\<open>None\<close> where the text fails numeric parsing), and \<open>str_of\<close> is \<^verbatim>\<open>str()\<close> on a value
  that is not missing, as the CSV writer prints it.
\<close>

record 'f float_lib =
  str_to_float :: "string \<Rightarrow> 'f pyfloat option"
  int_to_float :: "int \<Rightarrow> 'f option"
  to_numeric_text :: "string \<Rightarrow> 'f pyfloat option"
  str_of :: "'f pyval \<Rightarrow> string"

text \<open>\<^verbatim>\<open>xs[i]\<close> on a sequence: a negative index counts from the end.\<close>

definition py_index :: "'a list \<Rightarrow> int \<Rightarrow> py_error + 'a" where
  "py_index xs i =
     (if 0 \<le> i \<and> i < int (length xs) then Inr (xs ! nat i)
      else if i < 0 \<and> - int (length xs) \<le> i then Inr (xs ! nat (int (length xs) + i))
      else Inl IndexError)"

text \<open>
  \<^verbatim>\<open>x[k]\<close>. The keys of a dict parsed from JSON are strings and distinct, so any other
  hashable key is absent (KeyError) and a list or dict key is unhashable (TypeError).
  Lists and strings take integers (a \<^verbatim>\<open>bool\<close> is one); nothing else is subscriptable.
\<close>

fun py_getitem :: "'f pyval \<Rightarrow> 'f pyval \<Rightarrow> py_error + 'f pyval" where
  "py_getitem (PDict kvs) (PStr s) = (case map_of kvs s of None \<Rightarrow> Inl KeyError | Some v \<Rightarrow> Inr v)"
| "py_getitem (PDict kvs) (PList xs) = Inl TypeError"
| "py_getitem (PDict kvs) (PDict ys) = Inl TypeError"
| "py_getitem (PDict kvs) k = Inl KeyError"
| "py_getitem (PList xs) (PInt i) = py_index xs i"
| "py_getitem (PList xs) (PBool b) = py_index xs (if b then 1 else 0)"
| "py_getitem (PList xs) k = Inl TypeError"
| "py_getitem (PStr s) (PInt i) = map_sum id (\<lambda>c. PStr [c]) (py_index s i)"
| "py_getitem (PStr s) (PBool b) = map_sum id (\<lambda>c. PStr [c]) (py_index s (if b then 1 else 0))"
| "py_getitem (PStr s) k = Inl TypeError"
| "py_getitem v k = Inl TypeError"

text \<open>A chain of subscripts \<^verbatim>\<open>x[k1][k2]...\<close>, left to right.\<close>

fun py_path :: "'f pyval \<Rightarrow> 'f pyval list \<Rightarrow> py_error + 'f pyval" where
  "py_path v [] = Inr v"
| "py_path v (k # ks) = bindE (py_getitem v k) (\<lambda>w. py_path w ks)"

text \<open>What a \<^verbatim>\<open>for\<close> loop runs over: the keys of a dict, the items of a list, the characters of a string.\<close>

fun py_iter :: "'f pyval \<Rightarrow> py_error + 'f pyval list" where
  "py_iter (PDict kvs) = Inr (map (\<lambda>kv. PStr (fst kv)) kvs)"
| "py_iter (PList xs) = Inr xs"
| "py_iter (PStr s) = Inr (map (\<lambda>c. PStr [c]) s)"
| "py_iter v = Inl TypeError"

fun py_float :: "('f::zero_neq_one, 'm) float_lib_scheme \<Rightarrow> 'f pyval \<Rightarrow> py_error + 'f pyfloat" where
  "py_float lib (PStr s) = (case str_to_float lib s of None \<Rightarrow> Inl ValueError | Some x \<Rightarrow> Inr x)"
| "py_float lib (PInt i) = (case int_to_float lib i of None \<Rightarrow> Inl OverflowError | Some x \<Rightarrow> Inr (Val x))"
| "py_float lib (PBool b) = Inr (Val (if b then 1 else 0))"
| "py_float lib (PFloat x) = Inr x"
| "py_float lib v = Inl TypeError"

text \<open>The body of a loop run over a list, in order, stopping at the first fault.\<close>

fun mapE :: "('a \<Rightarrow> py_error + 'b) \<Rightarrow> 'a list \<Rightarrow> py_error + 'b list" where
  "mapE f [] = Inr []"
| "mapE f (x # xs) = bindE (f x) (\<lambda>y. bindE (mapE f xs) (\<lambda>ys. Inr (y # ys)))"

section \<open>Building and joining tables\<close>

text \<open>Labels in order of first appearance.\<close>

fun add_labels :: "string list \<Rightarrow> string list \<Rightarrow> string list" where
  "add_labels acc [] = acc"
| "add_labels acc (c # cs) = add_labels (if c \<in> set acc then acc else acc @ [c]) cs"

text \<open>A row laid out over the labels \<open>cols\<close>: a label the row does not have gives NaN.\<close>

definition reindex :: "string list \<Rightarrow> (string \<times> 'f pyval) list \<Rightarrow> 'f pyval list" where
  "reindex cols kvs = map (\<lambda>c. case map_of kvs c of None \<Rightarrow> PFloat NaN | Some v \<Rightarrow> v) cols"

text \<open>
  \<^verbatim>\<open>pd.DataFrame(records)\<close> on a list of dicts: the columns are the keys in order of first
  appearance, the index is 0, 1, 2, ... The cells keep the records' values; the dtype that
  pandas infers for a column is not tracked.
\<close>

definition DataFrame :: "(string \<times> 'f pyval) list list \<Rightarrow> 'f dataframe" where
  "DataFrame recs =
     (let cols = fold (\<lambda>r acc. add_labels acc (map fst r)) recs []
      in \<lparr>columns = cols, rows = enumerate 0 (map (reindex cols) recs)\<rparr>)"

text \<open>
  \<^verbatim>\<open>pd.concat([a, b], ignore_index=True)\<close>: the rows of \<open>a\<close>, then those of \<open>b\<close>, over
  the union of the columns (the default outer join, unsorted), renumbered from 0. As for
  \<open>DataFrame\<close>, cells are carried over as values.
\<close>

definition pd_concat :: "'f dataframe \<Rightarrow> 'f dataframe \<Rightarrow> 'f dataframe" where
  "pd_concat a b =
     (let cols = add_labels (columns a) (columns b)
      in \<lparr>columns = cols,
          rows = enumerate 0
            (map (\<lambda>r. reindex cols (zip (columns a) (snd r))) (rows a) @
             map (\<lambda>r. reindex cols (zip (columns b) (snd r))) (rows b))\<rparr>)"

text \<open>
  \<^verbatim>\<open>df[c] = values\<close>: an existing column is overwritten in place, a new label is appended
  on the right; pandas raises ValueError unless there is one value per row.
\<close>

definition setcol :: "'f dataframe \<Rightarrow> string \<Rightarrow> 'f pyval list \<Rightarrow> py_error + 'f dataframe" where
  "setcol df c vals =
     (if length vals \<noteq> length (rows df) then Inl ValueError
      else case col_pos (columns df) c of
        Some k \<Rightarrow> Inr (df\<lparr>rows := map (\<lambda>(r, v). (fst r, (snd r)[k := v])) (zip (rows df) vals)\<rparr>)
      | None \<Rightarrow> Inr (df\<lparr>columns := columns df @ [c],
                        rows := map (\<lambda>(r, v). (fst r, snd r @ [v])) (zip (rows df) vals)\<rparr>))"

section \<open>The static loader\<close>

text \<open>
  \<^verbatim>\<open>pd.to_numeric(series, errors='coerce')\<close> on one cell: text is parsed, and text that
  fails to parse becomes NaN; a cell that is a number already stays; anything else that is
  not a number becomes NaN.
\<close>

fun to_numeric_coerce :: "('f, 'm) float_lib_scheme \<Rightarrow> 'f pyval \<Rightarrow> 'f pyval" where
  "to_numeric_coerce lib (PStr s) = PFloat (case to_numeric_text lib s of None \<Rightarrow> NaN | Some x \<Rightarrow> x)"
| "to_numeric_coerce lib (PInt i) = PInt i"
| "to_numeric_coerce lib (PFloat x) = PFloat x"
| "to_numeric_coerce lib (PBool b) = PBool b"
| "to_numeric_coerce lib v = PFloat NaN"

definition coerce_column ::
  "('f, 'm) float_lib_scheme \<Rightarrow> string \<Rightarrow> 'f dataframe \<Rightarrow> py_error + 'f dataframe" where
  "coerce_column lib c df =
     bindE (getcol df c) (\<lambda>series. setcol df c (map (to_numeric_coerce lib) series))"

text \<open>
  \<open>load_static_data\<close>, lines 15 to 21, from the table that \<^verbatim>\<open>pd.read_csv\<close> returned for
  the file.
\<close>

definition load_static_data ::
  "('f, 'm) float_lib_scheme \<Rightarrow> 'f dataframe \<Rightarrow> py_error + 'f dataframe" where
  "load_static_data lib df0 =
     bindE (coerce_column lib ''relative_velocity_kmph'' df0) (\<lambda>df1.
     bindE (coerce_column lib ''miss_distance_km'' df1) (\<lambda>df2.
     bindE (coerce_column lib ''estimated_diameter_min_km'' df2) (\<lambda>df3.
     bindE (coerce_column lib ''estimated_diameter_max_km'' df3) (\<lambda>df4.
     Inr df4))))"

definition numeric_cols :: "string list" where
  "numeric_cols = [''relative_velocity_kmph'', ''miss_distance_km'',
                   ''estimated_diameter_min_km'', ''estimated_diameter_max_km'']"

section \<open>The live fetcher\<close>

text \<open>\<^verbatim>\<open>obj['close_approach_data'][0]\<close>, which the loop body evaluates afresh at each use.\<close>

definition approach0 :: "'f pyval list" where
  "approach0 = [PStr ''close_approach_data'', PInt 0]"

text \<open>The body of the inner loop, lines 34 to 48: the record appended for one object.\<close>

definition flatten_neo ::
  "('f::zero_neq_one, 'm) float_lib_scheme \<Rightarrow> 'f pyval \<Rightarrow> py_error + (string \<times> 'f pyval) list" where
  "flatten_neo lib obj =
     bindE (py_path obj [PStr ''estimated_diameter'', PStr ''kilometers'']) (\<lambda>est_dia.
     bindE (py_path obj (approach0 @ [PStr ''relative_velocity'', PStr ''kilometers_per_hour''])) (\<lambda>rel_vel.
     bindE (py_path obj (approach0 @ [PStr ''miss_distance'', PStr ''kilometers''])) (\<lambda>miss_dist.
     bindE (py_getitem obj (PStr ''id'')) (\<lambda>v_id.
     bindE (py_getitem obj (PStr ''name'')) (\<lambda>v_name.
     bindE (py_getitem obj (PStr ''absolute_magnitude_h'')) (\<lambda>v_mag.
     bindE (py_getitem est_dia (PStr ''estimated_diameter_min'')) (\<lambda>v_min.
     bindE (py_getitem est_dia (PStr ''estimated_diameter_max'')) (\<lambda>v_max.
     bindE (py_getitem obj (PStr ''is_potentially_hazardous_asteroid'')) (\<lambda>v_haz.
     bindE (py_path obj (approach0 @ [PStr ''close_approach_date''])) (\<lambda>v_date.
     bindE (py_float lib rel_vel) (\<lambda>v_vel.
     bindE (py_float lib miss_dist) (\<lambda>v_miss.
     bindE (py_path obj (approach0 @ [PStr ''orbiting_body''])) (\<lambda>v_body.
     Inr [(''id'', v_id),
          (''name'', v_name),
          (''absolute_magnitude_h'', v_mag),
          (''estimated_diameter_min_km'', v_min),
          (''estimated_diameter_max_km'', v_max),
          (''is_potentially_hazardous_asteroid'', v_haz),
          (''close_approach_date'', v_date),
          (''relative_velocity_kmph'', PFloat v_vel),
          (''miss_distance_km'', PFloat v_miss),
          (''orbiting_body'', v_body)])))))))))))))"

text \<open>
  \<open>fetch_nasa_data\<close>, lines 31 to 49, from the parsed JSON body \<open>api_data\<close>: the two
  nested loops append one record per object, and the table is built from the records.
\<close>

definition fetch_nasa_data ::
  "('f::zero_neq_one, 'm) float_lib_scheme \<Rightarrow> 'f pyval \<Rightarrow> py_error + 'f dataframe" where
  "fetch_nasa_data lib api_data =
     bindE (py_getitem api_data (PStr ''near_earth_objects'')) (\<lambda>by_date.
     bindE (py_iter by_date) (\<lambda>dates.
     bindE (mapE (\<lambda>date.
              bindE (py_getitem by_date date) (\<lambda>day.
              bindE (py_iter day) (\<lambda>objs. mapE (flatten_neo lib) objs))) dates) (\<lambda>neos.
     Inr (DataFrame (concat neos)))))"

section \<open>The flat record, in the specification's words\<close>

text \<open>
  Section 4.2 of the specification describes the live table without faults: for every date
  key, for every object within it, one record that takes id, name, magnitude, the minimum
  and maximum diameter in kilometres and the hazard flag from the object, and the approach
  date, the velocity in km/h and the miss distance in km (both as floating point) and the
  orbiting body from the first entry of the object's close-approach list. The definitions
  here follow those words, with \<open>None\<close> where a part is absent; they are compared with
  \<open>flatten_neo\<close> and \<open>fetch_nasa_data\<close> further down.
\<close>

fun field :: "'f pyval \<Rightarrow> string \<Rightarrow> 'f pyval option" where
  "field (PDict kvs) k = map_of kvs k"
| "field v k = None"

text \<open>The items of a JSON array.\<close>

fun items :: "'f pyval \<Rightarrow> 'f pyval list option" where
  "items (PList xs) = Some xs"
| "items v = None"

definition first_approach :: "'f pyval \<Rightarrow> 'f pyval option" where
  "first_approach obj =
     (case field obj ''close_approach_data'' of
        Some (PList (ca # later)) \<Rightarrow> Some ca
      | _ \<Rightarrow> None)"

definition as_float :: "('f::zero_neq_one, 'm) float_lib_scheme \<Rightarrow> 'f pyval \<Rightarrow> 'f pyfloat option" where
  "as_float lib v = (case py_float lib v of Inl e \<Rightarrow> None | Inr x \<Rightarrow> Some x)"

text \<open>The keys of a record, in the order of the dict literal of lines 37 to 48.\<close>

definition neo_columns :: "string list" where
  "neo_columns = [''id'', ''name'', ''absolute_magnitude_h'', ''estimated_diameter_min_km'',
     ''estimated_diameter_max_km'', ''is_potentially_hazardous_asteroid'', ''close_approach_date'',
     ''relative_velocity_kmph'', ''miss_distance_km'', ''orbiting_body'']"

definition spec_record ::
  "('f::zero_neq_one, 'm) float_lib_scheme \<Rightarrow> 'f pyval \<Rightarrow> 'f pyval list option" where
  "spec_record lib obj =
     Option.bind (field obj ''id'') (\<lambda>v_id.
     Option.bind (field obj ''name'') (\<lambda>v_name.
     Option.bind (field obj ''absolute_magnitude_h'') (\<lambda>v_mag.
     Option.bind (field obj ''estimated_diameter'') (\<lambda>dia.
     Option.bind (field dia ''kilometers'') (\<lambda>km.
     Option.bind (field km ''estimated_diameter_min'') (\<lambda>v_min.
     Option.bind (field km ''estimated_diameter_max'') (\<lambda>v_max.
     Option.bind (field obj ''is_potentially_hazardous_asteroid'') (\<lambda>v_haz.
     Option.bind (first_approach obj) (\<lambda>ca.
     Option.bind (field ca ''close_approach_date'') (\<lambda>v_date.
     Option.bind (field ca ''relative_velocity'') (\<lambda>vel.
     Option.bind (field vel ''kilometers_per_hour'') (\<lambda>kmph.
     Option.bind (as_float lib kmph) (\<lambda>v_vel.
     Option.bind (field ca ''miss_distance'') (\<lambda>miss.
     Option.bind (field miss ''kilometers'') (\<lambda>kms.
     Option.bind (as_float lib kms) (\<lambda>v_miss.
     Option.bind (field ca ''orbiting_body'') (\<lambda>v_body.
     Some [v_id, v_name, v_mag, v_min, v_max, v_haz, v_date, PFloat v_vel, PFloat v_miss,
           v_body])))))))))))))))))"

text \<open>
  Every object of every date key, in order: the response is a dict whose
  \<^verbatim>\<open>near_earth_objects\<close> is a dict (its keys distinct, as in any Python dict) from date
  keys to arrays.
\<close>

definition feed_objects :: "'f pyval \<Rightarrow> 'f pyval list option" where
  "feed_objects api_data =
     (case field api_data ''near_earth_objects'' of
        Some (PDict days) \<Rightarrow>
          if distinct (map fst days)
          then map_option concat (those (map (\<lambda>kv. items (snd kv)) days))
          else None
      | _ \<Rightarrow> None)"

section \<open>The script\<close>

text \<open>
  The script binds three names to table objects. Objects live in a store, addressed by
  their position; a name holds an address. \<^verbatim>\<open>pd.concat\<close> and \<^verbatim>\<open>df[mask]\<close> return new
  objects, and an assignment rebinds the name on its left.
\<close>

record 'f script_state =
  heap :: "'f dataframe list"
  static_df :: nat
  dynamic_df :: nat
  combined_df :: nat

text \<open>Lines 52 to 54: both loads and the concatenation.\<close>

definition load_and_combine ::
  "('f::zero_neq_one, 'm) float_lib_scheme \<Rightarrow> 'f dataframe \<Rightarrow> 'f pyval \<Rightarrow> py_error + 'f script_state" where
  "load_and_combine lib file_df api_data =
     bindE (load_static_data lib file_df) (\<lambda>s.
     bindE (fetch_nasa_data lib api_data) (\<lambda>d.
     Inr \<lparr>heap = [s, d, pd_concat s d], static_df = 0, dynamic_df = 1, combined_df = 2\<rparr>))"

text \<open>
  Lines 59 to 62 on the script's state: under "Yes" and "No" the filtered table is a new
  object and \<^verbatim>\<open>combined_df\<close> is rebound to it; otherwise nothing is assigned.
\<close>

definition apply_filter ::
  "string \<Rightarrow> ('f::zero_neq_one) script_state \<Rightarrow> py_error + 'f script_state" where
  "apply_filter sel st =
     bindE (hazard_filter sel (heap st ! combined_df st)) (\<lambda>df.
     Inr (if sel = ''Yes'' \<or> sel = ''No''
          then st\<lparr>heap := heap st @ [df], combined_df := length (heap st)\<rparr>
          else st))"

section \<open>The CSV export\<close>

text \<open>
  \<^verbatim>\<open>to_csv(index=False)\<close> writes with Python's \<^verbatim>\<open>csv.writer\<close> in its default dialect:
  fields separated by commas, records ended by a line feed, a field quoted when it holds a
  comma, a double quote, a line feed or a carriage return, a double quote inside it written
  twice, and a record that is one empty field written as two double quotes. A missing value
  is written as the empty text. Text is a list of bytes, so the encoding to UTF-8 is the
  text itself.
\<close>

definition LF :: char where "LF = CHR 0x0A"
definition CR :: char where "CR = CHR 0x0D"
definition COMMA :: char where "COMMA = CHR '',''"
definition DQ :: char where "DQ = CHR 0x22"

definition special :: "char \<Rightarrow> bool" where
  "special c = (c = COMMA \<or> c = DQ \<or> c = LF \<or> c = CR)"

definition escape_quotes :: "string \<Rightarrow> string" where
  "escape_quotes s = concat (map (\<lambda>c. if c = DQ then [DQ, DQ] else [c]) s)"

definition quote_field :: "string \<Rightarrow> string" where
  "quote_field s = (if list_ex special s then DQ # escape_quotes s @ [DQ] else s)"

fun join_fields :: "string list \<Rightarrow> string" where
  "join_fields [] = []"
| "join_fields [f] = f"
| "join_fields (f # fs) = f @ COMMA # join_fields fs"

definition write_row :: "string list \<Rightarrow> string" where
  "write_row fs = (if fs = [[]] then [DQ, DQ] else join_fields (map quote_field fs)) @ [LF]"

definition cell_text :: "('f, 'm) float_lib_scheme \<Rightarrow> 'f pyval \<Rightarrow> string" where
  "cell_text lib v = (if isna v then [] else str_of lib v)"

definition to_csv :: "('f, 'm) float_lib_scheme \<Rightarrow> 'f dataframe \<Rightarrow> string" where
  "to_csv lib df =
     concat (map write_row (columns df # map (\<lambda>r. map (cell_text lib) (snd r)) (rows df)))"





text \<open>Lines 52 to 62 and 124: one render, from the inputs to the final state and the export.\<close>

record 'f render =
  final :: "'f script_state"
  csv :: string

definition run_script ::
  "('f::zero_neq_one, 'm) float_lib_scheme \<Rightarrow> 'f dataframe \<Rightarrow> 'f pyval \<Rightarrow> string \<Rightarrow> py_error + 'f render" where
  "run_script lib file_df api_data sel =
     bindE (load_and_combine lib file_df api_data) (\<lambda>st0.
     bindE (apply_filter sel st0) (\<lambda>st1.
     Inr \<lparr>final = st1, csv = to_csv lib (heap st1 ! combined_df st1)\<rparr>))"


section \<open>A worked render\<close>

text \<open>Concrete inputs on which the theorems below are exercised, with doubles taken as rationals.\<close>

definition demo_combined :: "rat dataframe" where
  "demo_combined = \<lparr>columns = [''id'', ''is_potentially_hazardous_asteroid''],
     rows = [(0, [PStr ''a'', PBool True]), (1, [PStr ''b'', PBool False]),
             (2, [PStr ''c'', PFloat NaN]), (3, [PStr ''d'', PBool True])]\<rparr>"

definition demo_lib :: "rat float_lib" where
  "demo_lib = \<lparr>
     str_to_float = (\<lambda>s. if s = ''48000.5'' then Some (Val (96001 / 2))
                          else if s = ''7100000'' then Some (Val 7100000) else None),
     int_to_float = (\<lambda>i. Some (of_int i)),
     to_numeric_text = (\<lambda>s. if s = ''54000000'' then Some (Val 54000000) else None),
     str_of = (\<lambda>v. case v of PStr s \<Rightarrow> s | PBool b \<Rightarrow> (if b then ''True'' else ''False'') | _ \<Rightarrow> ''1'')\<rparr>"

definition demo_file :: "rat dataframe" where
  "demo_file = \<lparr>
     columns = [''id'', ''estimated_diameter_min_km'', ''estimated_diameter_max_km'',
                ''is_potentially_hazardous_asteroid'', ''relative_velocity_kmph'', ''miss_distance_km''],
     rows = [(0, [PInt 433, PFloat (Val (1 / 2)), PFloat (Val (3 / 5)), PBool True, PInt 20000, PStr ''unknown'']),
             (1, [PInt 719, PFloat (Val 1), PFloat (Val 2), PBool False, PInt 31000, PStr ''54000000''])]\<rparr>"

definition demo_static :: "rat dataframe" where
  "demo_static = \<lparr>
     columns = [''id'', ''estimated_diameter_min_km'', ''estimated_diameter_max_km'',
                ''is_potentially_hazardous_asteroid'', ''relative_velocity_kmph'', ''miss_distance_km''],
     rows = [(0, [PInt 433, PFloat (Val (1 / 2)), PFloat (Val (3 / 5)), PBool True, PInt 20000, PFloat NaN]),
             (1, [PInt 719, PFloat (Val 1), PFloat (Val 2), PBool False, PInt 31000, PFloat (Val 54000000)])]\<rparr>"

definition demo_approach :: "string \<Rightarrow> rat pyval" where
  "demo_approach day = PDict [
     (''close_approach_date'', PStr day),
     (''relative_velocity'', PDict [(''kilometers_per_second'', PStr ''13.3''), (''kilometers_per_hour'', PStr ''48000.5'')]),
     (''miss_distance'', PDict [(''lunar'', PStr ''18.4''), (''kilometers'', PStr ''7100000'')]),
     (''orbiting_body'', PStr ''Earth'')]"

definition demo_neo :: "rat pyval list \<Rightarrow> rat pyval" where
  "demo_neo approaches = PDict [
     (''id'', PStr ''3542519''),
     (''name'', PStr ''(2010 PK9)''),
     (''absolute_magnitude_h'', PFloat (Val (43 / 2))),
     (''estimated_diameter'', PDict [
        (''kilometers'', PDict [(''estimated_diameter_min'', PFloat (Val (1 / 10))),
                               (''estimated_diameter_max'', PFloat (Val (3 / 10)))]),
        (''meters'', PDict [(''estimated_diameter_min'', PFloat (Val 100)),
                           (''estimated_diameter_max'', PFloat (Val 300))])]),
     (''is_potentially_hazardous_asteroid'', PBool False),
     (''close_approach_data'', PList approaches)]"

definition demo_feed :: "rat pyval list \<Rightarrow> rat pyval" where
  "demo_feed approaches = PDict [
     (''element_count'', PInt 1),
     (''near_earth_objects'', PDict [(''2025-07-01'', PList [demo_neo approaches])])]"

definition demo_live :: "rat dataframe" where
  "demo_live = \<lparr>
     columns = [''id'', ''name'', ''absolute_magnitude_h'', ''estimated_diameter_min_km'',
                ''estimated_diameter_max_km'', ''is_potentially_hazardous_asteroid'',
                ''close_approach_date'', ''relative_velocity_kmph'', ''miss_distance_km'',
                ''orbiting_body''],
     rows = [(0, [PStr ''3542519'', PStr ''(2010 PK9)'', PFloat (Val (43 / 2)), PFloat (Val (1 / 10)),
                  PFloat (Val (3 / 10)), PBool False, PStr ''2025-07-01'', PFloat (Val (96001 / 2)),
                  PFloat (Val 7100000), PStr ''Earth''])]\<rparr>"

definition demo_joined :: "rat dataframe" where
  "demo_joined = \<lparr>
     columns = [''id'', ''estimated_diameter_min_km'', ''estimated_diameter_max_km'',
                ''is_potentially_hazardous_asteroid'', ''relative_velocity_kmph'', ''miss_distance_km'',
                ''name'', ''absolute_magnitude_h'', ''close_approach_date'', ''orbiting_body''],
     rows = [(0, [PInt 433, PFloat (Val (1 / 2)), PFloat (Val (3 / 5)), PBool True, PInt 20000, PFloat NaN,
                  PFloat NaN, PFloat NaN, PFloat NaN, PFloat NaN]),
             (1, [PInt 719, PFloat (Val 1), PFloat (Val 2), PBool False, PInt 31000, PFloat (Val 54000000),
                  PFloat NaN, PFloat NaN, PFloat NaN, PFloat NaN]),
             (2, [PStr ''3542519'', PFloat (Val (1 / 10)), PFloat (Val (3 / 10)), PBool False,
                  PFloat (Val (96001 / 2)), PFloat (Val 7100000), PStr ''(2010 PK9)'',
                  PFloat (Val (43 / 2)), PStr ''2025-07-01'', PStr ''Earth''])]\<rparr>"

section \<open>Properties of the hazard filter\<close>

lemma col_pos_None: "col_pos cs c = None \<longleftrightarrow> c \<notin> set cs"
  by (induction cs) auto

lemma col_pos_Some: "col_pos cs c = Some k \<Longrightarrow> k < length cs \<and> cs ! k = c"
  by (induction cs arbitrary: k) (auto split: if_splits)

lemma col_pos_ex: "c \<in> set cs \<Longrightarrow> \<exists>k. col_pos cs c = Some k"
  using col_pos_None [of cs c] by (cases "col_pos cs c") auto

lemma mask_select: "map fst (filter snd (zip xs (map f xs))) = filter f xs"
  by (induction xs) auto

lemma hazard_filter_rows:
  assumes "col_pos (columns df) flag_col = Some k"
  shows "hazard_filter ''Yes'' df = Inr (df\<lparr>rows := filter (\<lambda>r. eq_bool (snd r ! k) True) (rows df)\<rparr>)"
    and "hazard_filter ''No'' df = Inr (df\<lparr>rows := filter (\<lambda>r. eq_bool (snd r ! k) False) (rows df)\<rparr>)"
proof -
  have m: "map (\<lambda>c. eq_bool c b) (map (\<lambda>r. snd r ! k) (rows df))
           = map (\<lambda>r. eq_bool (snd r ! k) b) (rows df)" for b
    by simp
  show "hazard_filter ''Yes'' df = Inr (df\<lparr>rows := filter (\<lambda>r. eq_bool (snd r ! k) True) (rows df)\<rparr>)"
    using assms unfolding hazard_filter_def getcol_def bindE_def boolean_index_def
    by (simp add: m mask_select del: map_map)
  show "hazard_filter ''No'' df = Inr (df\<lparr>rows := filter (\<lambda>r. eq_bool (snd r ! k) False) (rows df)\<rparr>)"
    using assms unfolding hazard_filter_def getcol_def bindE_def boolean_index_def
    by (simp add: m mask_select del: map_map)
qed

text \<open>
  Claim C1. The hazard filter is a tri-state selection over the combined table: on a table
  that has the hazard column, "All" returns the table as it is, "Yes" returns exactly the
  rows whose flag compares equal to \<^verbatim>\<open>True\<close>, and "No" exactly the rows whose flag
  compares equal to \<^verbatim>\<open>False\<close>, in their order and with nothing else.
\<close>

theorem hazard_filter_tristate:
  assumes "flag_col \<in> set (columns df)"
  shows "\<exists>k. col_pos (columns df) flag_col = Some k \<and>
     hazard_filter ''All'' df = Inr df \<and>
     hazard_filter ''Yes'' df = Inr (df\<lparr>rows := filter (\<lambda>r. eq_bool (snd r ! k) True) (rows df)\<rparr>) \<and>
     hazard_filter ''No'' df = Inr (df\<lparr>rows := filter (\<lambda>r. eq_bool (snd r ! k) False) (rows df)\<rparr>)"
proof -
  from assms obtain k where k: "col_pos (columns df) flag_col = Some k"
    using col_pos_ex by blast
  have "hazard_filter ''All'' df = Inr df"
    by (simp add: hazard_filter_def)
  with k hazard_filter_rows [OF k] show ?thesis by blast
qed

theorem hazard_filter_tristate_witness:
  "hazard_filter ''All'' demo_combined = Inr demo_combined \<and>
   hazard_filter ''Yes'' demo_combined =
     Inr (demo_combined\<lparr>rows := [(0, [PStr ''a'', PBool True]), (3, [PStr ''d'', PBool True])]\<rparr>) \<and>
   hazard_filter ''No'' demo_combined =
     Inr (demo_combined\<lparr>rows := [(1, [PStr ''b'', PBool False])]\<rparr>)"
  using hazard_filter_tristate [of demo_combined]
  by (auto simp add: demo_combined_def flag_col_def)

text \<open>
  Claim C4. Filtering is idempotent and "All" is its identity: filtering the result of the
  "Yes" filter with "Yes" again gives that result (a table without the hazard column faults
  the first time already), likewise for "No", and "All" returns the combined table unchanged.
\<close>

theorem hazard_filter_idempotent:
  "bindE (hazard_filter ''Yes'' df) (hazard_filter ''Yes'') = hazard_filter ''Yes'' df \<and>
   bindE (hazard_filter ''No'' df) (hazard_filter ''No'') = hazard_filter ''No'' df \<and>
   hazard_filter ''All'' df = Inr df"
proof (cases "col_pos (columns df) flag_col")
  case None
  then show ?thesis
    by (simp add: hazard_filter_def getcol_def bindE_def)
next
  case (Some k)
  let ?y = "df\<lparr>rows := filter (\<lambda>r. eq_bool (snd r ! k) True) (rows df)\<rparr>"
  let ?n = "df\<lparr>rows := filter (\<lambda>r. eq_bool (snd r ! k) False) (rows df)\<rparr>"
  have ky: "col_pos (columns ?y) flag_col = Some k" and kn: "col_pos (columns ?n) flag_col = Some k"
    using Some by simp_all
  have "hazard_filter ''Yes'' ?y = Inr ?y"
    using hazard_filter_rows(1) [OF ky] by simp
  moreover have "hazard_filter ''No'' ?n = Inr ?n"
    using hazard_filter_rows(2) [OF kn] by simp
  moreover have "hazard_filter ''All'' df = Inr df"
    by (simp add: hazard_filter_def)
  ultimately show ?thesis
    using hazard_filter_rows [OF Some] by (simp add: bindE_def)
qed

theorem hazard_filter_idempotent_witness:
  "bindE (hazard_filter ''Yes'' demo_combined) (hazard_filter ''Yes'') =
     Inr (demo_combined\<lparr>rows := [(0, [PStr ''a'', PBool True]), (3, [PStr ''d'', PBool True])]\<rparr>)"
  using hazard_filter_idempotent [of demo_combined]
  by (simp add: demo_combined_def flag_col_def hazard_filter_def getcol_def bindE_def boolean_index_def)

text \<open>
  Claim C10. A row whose hazard flag is missing (NaN or \<^verbatim>\<open>None\<close>) is dropped by the
  "Yes" and by the "No" selection: whatever the selection, the filter returns a table, and
  the row is in it exactly when the selection is neither "Yes" nor "No".
\<close>

theorem missing_flag_dropped:
  assumes "col_pos (columns df) flag_col = Some k"
    and "r \<in> set (rows df)"
    and "isna (snd r ! k)"
  shows "\<exists>out. hazard_filter sel df = Inr out \<and>
           (r \<in> set (rows out) \<longleftrightarrow> sel \<noteq> ''Yes'' \<and> sel \<noteq> ''No'')"
proof -
  have ne: "\<not> eq_bool (snd r ! k) b" for b
    using assms(3) by (cases "snd r ! k" rule: isna.cases) simp_all
  consider "sel = ''Yes''" | "sel = ''No''" | "sel \<noteq> ''Yes''" "sel \<noteq> ''No''" by blast
  then show ?thesis
  proof cases
    case 1
    with hazard_filter_rows(1) [OF assms(1)] ne show ?thesis by auto
  next
    case 2
    with hazard_filter_rows(2) [OF assms(1)] ne show ?thesis by auto
  next
    case 3
    with assms(2) show ?thesis by (auto simp: hazard_filter_def)
  qed
qed

theorem missing_flag_dropped_witness:
  "(\<exists>out. hazard_filter ''Yes'' demo_combined = Inr out \<and> (2, [PStr ''c'', PFloat NaN]) \<notin> set (rows out)) \<and>
   (\<exists>out. hazard_filter ''No'' demo_combined = Inr out \<and> (2, [PStr ''c'', PFloat NaN]) \<notin> set (rows out)) \<and>
   (\<exists>out. hazard_filter ''All'' demo_combined = Inr out \<and> (2, [PStr ''c'', PFloat NaN]) \<in> set (rows out))"
proof -
  have k: "col_pos (columns demo_combined) flag_col = Some 1"
    by (simp add: demo_combined_def flag_col_def)
  have r: "(2, [PStr ''c'', PFloat NaN]) \<in> set (rows demo_combined)"
    by (simp add: demo_combined_def)
  have m: "isna (snd (2::nat, [PStr ''c'', PFloat NaN :: rat pyval]) ! 1)"
    by simp
  show ?thesis
    using missing_flag_dropped [OF k r m, of "''Yes''"]
      missing_flag_dropped [OF k r m, of "''No''"]
      missing_flag_dropped [OF k r m, of "''All''"]
    by simp
qed

section \<open>Properties of concatenation\<close>




lemma col_pos_nth: "distinct cs \<Longrightarrow> k < length cs \<Longrightarrow> col_pos cs (cs ! k) = Some k"
proof (induction cs arbitrary: k)
  case Nil
  then show ?case by simp
next
  case (Cons x xs)
  then show ?case by (cases k) auto
qed

lemma length_reindex [simp]: "length (reindex cols kvs) = length cols"
  by (simp add: reindex_def)








lemma wf_row: "wf_df df \<Longrightarrow> i < length (rows df) \<Longrightarrow> length (columns df) = length (snd (rows df ! i))"
  by (simp add: wf_df_def list_all_length)






section \<open>Properties of the static loader\<close>

lemma zip_map_self: "map (\<lambda>(r, v). g r v) (zip xs (map f xs)) = map (\<lambda>r. g r (f r)) xs"
  by (induction xs) auto

lemma coerce_column_eq:
  assumes "col_pos (columns df) c = Some k"
  shows "coerce_column lib c df =
     Inr (df\<lparr>rows := map (\<lambda>r. (fst r, (snd r)[k := to_numeric_coerce lib (snd r ! k)])) (rows df)\<rparr>)"
proof -
  have "map (\<lambda>(r, v). (fst r, (snd r)[k := v]))
          (zip (rows df) (map (\<lambda>r. to_numeric_coerce lib (snd r ! k)) (rows df)))
        = map (\<lambda>r. (fst r, (snd r)[k := to_numeric_coerce lib (snd r ! k)])) (rows df)"
    by (rule zip_map_self)
  then show ?thesis
    using assms by (simp add: coerce_column_def getcol_def setcol_def bindE_def comp_def)
qed

lemma coerce_column_ok:
  assumes "wf_df df" and "c \<in> set (columns df)"
  shows "\<exists>df'. coerce_column lib c df = Inr df' \<and> wf_df df' \<and> columns df' = columns df \<and>
            map fst (rows df') = map fst (rows df) \<and>
            (\<forall>i c'. cell_at df' i c' =
               (if c' = c then map_option (to_numeric_coerce lib) (cell_at df i c')
                else cell_at df i c'))"
proof -
  from assms(2) obtain k where k: "col_pos (columns df) c = Some k"
    using col_pos_ex by blast
  let ?df' = "df\<lparr>rows := map (\<lambda>r. (fst r, (snd r)[k := to_numeric_coerce lib (snd r ! k)])) (rows df)\<rparr>"
  have wf': "wf_df ?df'"
    using assms(1) by (simp add: wf_df_def list_all_iff)
  have lab: "map fst (rows ?df') = map fst (rows df)"
    by (simp add: comp_def)
  have cell: "cell_at ?df' i c' =
      (if c' = c then map_option (to_numeric_coerce lib) (cell_at df i c') else cell_at df i c')"
    for i c'
  proof (cases "i < length (rows df)")
    case False
    then show ?thesis by (simp add: cell_at_def)
  next
    case True
    have kl: "k < length (snd (rows df ! i))"
      using col_pos_Some [OF k] wf_row [OF assms(1) True] by simp
    show ?thesis
    proof (cases "col_pos (columns df) c'")
      case None
      with k show ?thesis by (auto simp: cell_at_def)
    next
      case (Some k')
      have "k' = k \<longleftrightarrow> c' = c"
      proof
        assume "k' = k"
        with col_pos_Some [OF k] col_pos_Some [OF Some] show "c' = c" by simp
      next
        assume "c' = c"
        with k Some show "k' = k" by simp
      qed
      then show ?thesis
        using True Some k kl by (auto simp: cell_at_def nth_list_update)
    qed
  qed
  show ?thesis
    using coerce_column_eq [OF k, of lib] wf' lab cell
    by (intro exI [of _ ?df']) simp
qed

text \<open>
  Claim C3. On a well-formed table read from a file that has the four numeric columns, the
  static loader raises nothing and returns a table with the same columns, the same number of
  rows and the same index; each cell of the four columns is coerced and every other cell is
  as read; a text cell of the four columns that fails numeric parsing is NaN afterwards.
\<close>

theorem load_static_coerces:
  assumes "wf_df df0" and "set numeric_cols \<subseteq> set (columns df0)"
  shows "\<exists>df. load_static_data lib df0 = Inr df \<and>
           columns df = columns df0 \<and>
           length (rows df) = length (rows df0) \<and>
           map fst (rows df) = map fst (rows df0) \<and>
           (\<forall>i c. cell_at df i c =
              (if c \<in> set numeric_cols then map_option (to_numeric_coerce lib) (cell_at df0 i c)
               else cell_at df0 i c)) \<and>
           (\<forall>i c s. c \<in> set numeric_cols \<and> cell_at df0 i c = Some (PStr s) \<and>
                     to_numeric_text lib s = None \<longrightarrow> cell_at df i c = Some (PFloat NaN))"
proof -
  from assms(2) have c1: "''relative_velocity_kmph'' \<in> set (columns df0)"
    and c2: "''miss_distance_km'' \<in> set (columns df0)"
    and c3: "''estimated_diameter_min_km'' \<in> set (columns df0)"
    and c4: "''estimated_diameter_max_km'' \<in> set (columns df0)"
    by (simp_all add: numeric_cols_def)
  from coerce_column_ok [OF assms(1) c1, of lib] obtain df1 where
    1: "coerce_column lib ''relative_velocity_kmph'' df0 = Inr df1" "wf_df df1"
       "columns df1 = columns df0" "map fst (rows df1) = map fst (rows df0)"
       "\<And>i c'. cell_at df1 i c' =
          (if c' = ''relative_velocity_kmph'' then map_option (to_numeric_coerce lib) (cell_at df0 i c')
           else cell_at df0 i c')"
    by blast
  from c2 1(3) have c2': "''miss_distance_km'' \<in> set (columns df1)" by simp
  from coerce_column_ok [OF 1(2) c2', of lib] obtain df2 where
    2: "coerce_column lib ''miss_distance_km'' df1 = Inr df2" "wf_df df2"
       "columns df2 = columns df1" "map fst (rows df2) = map fst (rows df1)"
       "\<And>i c'. cell_at df2 i c' =
          (if c' = ''miss_distance_km'' then map_option (to_numeric_coerce lib) (cell_at df1 i c')
           else cell_at df1 i c')"
    by blast
  from c3 1(3) 2(3) have c3': "''estimated_diameter_min_km'' \<in> set (columns df2)" by simp
  from coerce_column_ok [OF 2(2) c3', of lib] obtain df3 where
    3: "coerce_column lib ''estimated_diameter_min_km'' df2 = Inr df3" "wf_df df3"
       "columns df3 = columns df2" "map fst (rows df3) = map fst (rows df2)"
       "\<And>i c'. cell_at df3 i c' =
          (if c' = ''estimated_diameter_min_km'' then map_option (to_numeric_coerce lib) (cell_at df2 i c')
           else cell_at df2 i c')"
    by blast
  from c4 1(3) 2(3) 3(3) have c4': "''estimated_diameter_max_km'' \<in> set (columns df3)" by simp
  from coerce_column_ok [OF 3(2) c4', of lib] obtain df4 where
    4: "coerce_column lib ''estimated_diameter_max_km'' df3 = Inr df4" "wf_df df4"
       "columns df4 = columns df3" "map fst (rows df4) = map fst (rows df3)"
       "\<And>i c'. cell_at df4 i c' =
          (if c' = ''estimated_diameter_max_km'' then map_option (to_numeric_coerce lib) (cell_at df3 i c')
           else cell_at df3 i c')"
    by blast
  have run: "load_static_data lib df0 = Inr df4"
    by (simp add: load_static_data_def bindE_def 1(1) 2(1) 3(1) 4(1))
  have cols: "columns df4 = columns df0"
    by (simp add: 1(3) 2(3) 3(3) 4(3))
  have labs: "map fst (rows df4) = map fst (rows df0)"
    by (simp add: 1(4) 2(4) 3(4) 4(4))
  have len: "length (rows df4) = length (rows df0)"
    using arg_cong [OF labs, of length] by simp
  have cell: "cell_at df4 i c =
      (if c \<in> set numeric_cols then map_option (to_numeric_coerce lib) (cell_at df0 i c)
       else cell_at df0 i c)" for i c
    by (simp add: 1(5) 2(5) 3(5) 4(5) numeric_cols_def)
  have nan: "cell_at df4 i c = Some (PFloat NaN)"
    if "c \<in> set numeric_cols" "cell_at df0 i c = Some (PStr s)" "to_numeric_text lib s = None"
    for i c s
    using that by (simp add: cell)
  show ?thesis
    using run cols labs len cell nan by blast
qed

theorem load_static_coerces_witness:
  "wf_df demo_file \<and> set numeric_cols \<subseteq> set (columns demo_file) \<and>
   cell_at demo_file 0 ''miss_distance_km'' = Some (PStr ''unknown'') \<and>
   to_numeric_text demo_lib ''unknown'' = None \<and>
   (\<exists>df. load_static_data demo_lib demo_file = Inr df \<and> length (rows df) = 2 \<and>
      cell_at df 0 ''miss_distance_km'' = Some (PFloat NaN))"
proof -
  have a: "wf_df demo_file"
    by (simp add: wf_df_def demo_file_def)
  have b: "set numeric_cols \<subseteq> set (columns demo_file)"
    by (simp add: numeric_cols_def demo_file_def)
  have c: "cell_at demo_file 0 ''miss_distance_km'' = Some (PStr ''unknown'')"
    by (simp add: cell_at_def demo_file_def)
  have d: "to_numeric_text demo_lib ''unknown'' = None"
    by (simp add: demo_lib_def)
  have e: "''miss_distance_km'' \<in> set numeric_cols"
    by (simp add: numeric_cols_def)
  have f: "length (rows demo_file) = 2"
    by (simp add: demo_file_def)
  from load_static_coerces [OF a b, of demo_lib] c d e f a b show ?thesis
    by metis
qed

section \<open>The worked render, evaluated\<close>

lemma demo_load: "load_static_data demo_lib demo_file = Inr demo_static"
  by (simp add: load_static_data_def coerce_column_def getcol_def setcol_def bindE_def
      demo_file_def demo_static_def demo_lib_def)

lemma demo_fetch:
  "fetch_nasa_data demo_lib (demo_feed [demo_approach ''2025-07-01'', demo_approach ''2031-01-01'']) =
     Inr demo_live"
  by (simp add: fetch_nasa_data_def flatten_neo_def approach0_def py_index_def bindE_def DataFrame_def
      reindex_def enumerate_eq_zip demo_feed_def demo_neo_def demo_approach_def demo_live_def demo_lib_def)

lemma demo_concat: "pd_concat demo_static demo_live = demo_joined"
  by (simp add: pd_concat_def reindex_def enumerate_eq_zip demo_static_def demo_live_def demo_joined_def)

lemma demo_combine:
  "load_and_combine demo_lib demo_file (demo_feed [demo_approach ''2025-07-01'', demo_approach ''2031-01-01'']) =
     Inr \<lparr>heap = [demo_static, demo_live, demo_joined], static_df = 0, dynamic_df = 1, combined_df = 2\<rparr>"
  by (simp add: load_and_combine_def bindE_def demo_load demo_fetch demo_concat)

lemma demo_yes:
  "hazard_filter ''Yes'' demo_joined = Inr (demo_joined\<lparr>rows := [hd (rows demo_joined)]\<rparr>)"
  by (simp add: hazard_filter_def getcol_def bindE_def boolean_index_def flag_col_def demo_joined_def)

section \<open>The filter leaves everything else alone\<close>

lemma hazard_filter_shape:
  assumes "hazard_filter sel df = Inr out"
  shows "columns out = columns df \<and> (\<exists>P. rows out = filter P (rows df))"
proof (cases "sel = ''Yes'' \<or> sel = ''No''")
  case False
  with assms have "out = df" by (simp add: hazard_filter_def)
  moreover have "rows df = filter (\<lambda>r. True) (rows df)" by simp
  ultimately show ?thesis by blast
next
  case True
  with assms obtain k where k: "col_pos (columns df) flag_col = Some k"
    by (cases "col_pos (columns df) flag_col")
      (auto simp: hazard_filter_def getcol_def bindE_def)
  from True hazard_filter_rows [OF k] assms show ?thesis by auto
qed

lemma enumerate_row:
  assumes "r \<in> set (enumerate 0 xs)"
  shows "fst r < length xs \<and> enumerate 0 xs ! fst r = r"
proof -
  obtain i x where r: "r = (i, x)" by (cases r)
  with assms have "i < length xs \<and> xs ! i = x"
    by (simp add: in_set_enumerate_eq)
  then show ?thesis
    by (simp add: r nth_enumerate_eq)
qed

lemma concat_row:
  assumes "r \<in> set (rows (pd_concat a b))"
  shows "fst r < length (rows (pd_concat a b)) \<and> rows (pd_concat a b) ! fst r = r"
  using enumerate_row assms unfolding pd_concat_def Let_def by fastforce

text \<open>
  Claim C5. Filtering the combined table adds no row and alters none: whatever the
  selection, the filtered table has the combined table's columns, its rows are a
  subsequence of the combined rows, and each of them is the combined row of the same index
  label, cell for cell. No object that existed before the filter is changed, and the names
  of the two source tables still point at them.
\<close>

theorem filter_frame:
  assumes "load_and_combine lib file_df api_data = Inr st0"
    and "apply_filter sel st0 = Inr st1"
  shows "static_df st1 = static_df st0 \<and> dynamic_df st1 = dynamic_df st0 \<and>
     static_df st0 < length (heap st0) \<and> dynamic_df st0 < length (heap st0) \<and>
     combined_df st0 < length (heap st0) \<and>
     (\<forall>a < length (heap st0). heap st1 ! a = heap st0 ! a) \<and>
     columns (heap st1 ! combined_df st1) = columns (heap st0 ! combined_df st0) \<and>
     subseq (rows (heap st1 ! combined_df st1)) (rows (heap st0 ! combined_df st0)) \<and>
     (\<forall>r \<in> set (rows (heap st1 ! combined_df st1)).
        fst r < length (rows (heap st0 ! combined_df st0)) \<and>
        rows (heap st0 ! combined_df st0) ! fst r = r)"
proof -
  from assms(1) obtain s d where
    st0: "st0 = \<lparr>heap = [s, d, pd_concat s d], static_df = 0, dynamic_df = 1, combined_df = 2\<rparr>"
    by (auto simp: load_and_combine_def bindE_def split: sum.splits)
  let ?c = "pd_concat s d"
  have c: "heap st0 ! combined_df st0 = ?c" by (simp add: st0)
  from assms(2) obtain out where
    out: "hazard_filter sel ?c = Inr out"
    and st1: "st1 = (if sel = ''Yes'' \<or> sel = ''No''
                     then st0\<lparr>heap := heap st0 @ [out], combined_df := length (heap st0)\<rparr> else st0)"
    unfolding apply_filter_def bindE_def c by (auto split: sum.splits)
  from hazard_filter_shape [OF out] obtain P where
    cols: "columns out = columns ?c" and rs: "rows out = filter P (rows ?c)"
    by blast
  have f: "heap st1 ! combined_df st1 = out"
  proof (cases "sel = ''Yes'' \<or> sel = ''No''")
    case True
    then show ?thesis by (simp add: st1 st0)
  next
    case False
    with out have "out = ?c" by (simp add: hazard_filter_def)
    with False show ?thesis by (simp add: st1 st0)
  qed
  have names: "static_df st1 = static_df st0 \<and> dynamic_df st1 = dynamic_df st0"
    by (simp add: st1)
  have valid: "static_df st0 < length (heap st0) \<and> dynamic_df st0 < length (heap st0) \<and>
      combined_df st0 < length (heap st0)"
    by (simp add: st0)
  have same: "\<forall>a < length (heap st0). heap st1 ! a = heap st0 ! a"
    by (simp add: st1 nth_append)
  have sub: "subseq (rows out) (rows ?c)"
    by (simp add: rs)
  have vals: "\<forall>r \<in> set (rows out). fst r < length (rows ?c) \<and> rows ?c ! fst r = r"
    using concat_row [of _ s d] by (simp add: rs)
  show ?thesis
    unfolding f c using names valid same cols sub vals by blast
qed

theorem filter_frame_witness:
  "\<exists>st0 st1.
     load_and_combine demo_lib demo_file
       (demo_feed [demo_approach ''2025-07-01'', demo_approach ''2031-01-01'']) = Inr st0 \<and>
     apply_filter ''Yes'' st0 = Inr st1 \<and>
     heap st1 ! static_df st1 = demo_static \<and> heap st1 ! dynamic_df st1 = demo_live \<and>
     subseq (rows (heap st1 ! combined_df st1)) (rows demo_joined)"
proof -
  let ?st0 = "\<lparr>heap = [demo_static, demo_live, demo_joined], static_df = 0, dynamic_df = 1,
               combined_df = 2\<rparr>"
  let ?st1 = "\<lparr>heap = [demo_static, demo_live, demo_joined, demo_joined\<lparr>rows := [hd (rows demo_joined)]\<rparr>],
               static_df = 0, dynamic_df = 1, combined_df = 3\<rparr>"
  have b: "apply_filter ''Yes'' ?st0 = Inr ?st1"
    by (simp add: apply_filter_def bindE_def demo_yes)
  from filter_frame [OF demo_combine b] demo_combine b show ?thesis
    by (intro exI [of _ ?st0] exI [of _ ?st1]) simp
qed

section \<open>Properties of the live fetcher\<close>

lemma field_getitem: "field v k = Some w \<Longrightarrow> py_getitem v (PStr k) = Inr w"
  by (cases v) simp_all

lemma first_approach_path: "first_approach obj = Some ca \<Longrightarrow> py_path obj approach0 = Inr ca"
  by (cases obj)
    (auto simp: first_approach_def approach0_def bindE_def py_index_def
      split: option.splits pyval.splits list.splits)

lemma py_path_append: "py_path v (ks @ ks') = bindE (py_path v ks) (\<lambda>w. py_path w ks')"
  by (induction ks arbitrary: v) (auto simp: bindE_def split: sum.splits)

lemma as_float_Some: "as_float lib v = Some x \<Longrightarrow> py_float lib v = Inr x"
  by (simp add: as_float_def split: sum.splits)

lemma flatten_neo_refines:
  assumes "spec_record lib obj = Some cells"
  shows "flatten_neo lib obj = Inr (zip neo_columns cells)"
proof -
  from assms obtain v_id v_name v_mag dia km v_min v_max v_haz ca v_date vel kmph v_vel
      miss kms v_miss v_body where
    f: "field obj ''id'' = Some v_id" "field obj ''name'' = Some v_name"
       "field obj ''absolute_magnitude_h'' = Some v_mag"
       "field obj ''estimated_diameter'' = Some dia" "field dia ''kilometers'' = Some km"
       "field km ''estimated_diameter_min'' = Some v_min"
       "field km ''estimated_diameter_max'' = Some v_max"
       "field obj ''is_potentially_hazardous_asteroid'' = Some v_haz"
       "field ca ''close_approach_date'' = Some v_date"
       "field ca ''relative_velocity'' = Some vel" "field vel ''kilometers_per_hour'' = Some kmph"
       "field ca ''miss_distance'' = Some miss" "field miss ''kilometers'' = Some kms"
       "field ca ''orbiting_body'' = Some v_body"
    and a: "first_approach obj = Some ca"
    and fl: "as_float lib kmph = Some v_vel" "as_float lib kms = Some v_miss"
    and cells: "cells = [v_id, v_name, v_mag, v_min, v_max, v_haz, v_date, PFloat v_vel,
                         PFloat v_miss, v_body]"
    unfolding spec_record_def by (auto simp: bind_eq_Some_conv)
  note g = f [THEN field_getitem]
  have p: "py_path obj (approach0 @ ks) = py_path ca ks" for ks
    by (simp add: py_path_append first_approach_path [OF a] bindE_def)
  show ?thesis
    unfolding flatten_neo_def p
    by (simp add: g fl [THEN as_float_Some] bindE_def cells neo_columns_def)
qed


lemma bindE_Inr: "bindE (Inr x) k = k x"
  by (simp add: bindE_def)

lemma bindE_Inl: "bindE (Inl e) k = Inl e"
  by (simp add: bindE_def)

lemma mapE_those:
  assumes "those (map g xs) = Some ys"
    and "\<And>x y. x \<in> set xs \<Longrightarrow> g x = Some y \<Longrightarrow> f x = Inr (h y)"
  shows "mapE f xs = Inr (map h ys)"
  using assms
proof (induction xs arbitrary: ys)
  case Nil
  then show ?case by simp
next
  case (Cons x xs)
  from Cons.prems(1) obtain y ys' where
    y: "g x = Some y" and ys': "those (map g xs) = Some ys'" and ys: "ys = y # ys'"
    by (auto split: option.splits)
  have "mapE f xs = Inr (map h ys')"
    using Cons.IH [OF ys'] Cons.prems(2) by simp
  moreover have "f x = Inr (h y)"
    using Cons.prems(2) y by simp
  ultimately show ?case
    by (simp add: bindE_def ys)
qed


lemma those_append_Some:
  "those (xs @ ys) = Some zs \<Longrightarrow>
   \<exists>as bs. those xs = Some as \<and> those ys = Some bs \<and> zs = as @ bs"
  by (induction xs arbitrary: zs) (auto split: option.splits)

lemma items_Some: "items v = Some xs \<Longrightarrow> v = PList xs"
  by (cases v) simp_all

lemma day_lookup:
  assumes "distinct (map fst days)" and "kv \<in> set days"
  shows "py_getitem (PDict days) (PStr (fst kv)) = Inr (snd kv)"
proof -
  have "map_of days (fst kv) = Some (snd kv)"
    using assms by (cases kv) simp
  then show ?thesis by simp
qed











section \<open>A fault in the live fetcher\<close>

lemma mapE_append:
  "mapE f (xs @ ys) = bindE (mapE f xs) (\<lambda>as. bindE (mapE f ys) (\<lambda>bs. Inr (as @ bs)))"
  by (induction xs) (simp_all add: bindE_def split: sum.splits)

lemma mapE_stops:
  assumes "mapE f xs = Inr ys" and "f x = Inl e"
  shows "mapE f (xs @ x # zs) = Inl e"
  by (simp add: mapE_append assms bindE_Inr bindE_Inl)

lemma flatten_neo_empty_approach:
  assumes "field obj ''estimated_diameter'' = Some dia"
    and "field dia ''kilometers'' = Some km"
    and "field obj ''close_approach_data'' = Some (PList [])"
  shows "flatten_neo lib obj = Inl IndexError"
proof -
  have "py_path obj [PStr ''estimated_diameter'', PStr ''kilometers''] = Inr km"
    by (simp add: assms(1,2) [THEN field_getitem] bindE_Inr)
  moreover have "py_path obj approach0 = Inl IndexError"
    by (simp add: approach0_def assms(3) [THEN field_getitem] bindE_Inr bindE_Inl py_index_def)
  ultimately show ?thesis
    unfolding flatten_neo_def py_path_append by (simp add: bindE_Inr bindE_Inl)
qed

lemma outer_loop_stops:
  assumes "distinct (map fst days)" and "flatten_neo lib obj = Inl e"
  shows "set ds \<subseteq> set days \<Longrightarrow>
     those (map (\<lambda>kv. items (snd kv)) ds) = Some arrays \<Longrightarrow>
     concat arrays = pre @ obj # post \<Longrightarrow>
     those (map (spec_record lib) pre) = Some cellss \<Longrightarrow>
     mapE (\<lambda>date. bindE (py_getitem (PDict days) date) (\<lambda>day.
                   bindE (py_iter day) (\<lambda>objs. mapE (flatten_neo lib) objs)))
          (map (\<lambda>kv. PStr (fst kv)) ds) = Inl e"
proof (induction ds arbitrary: arrays pre cellss)
  case Nil
  then show ?case by auto
next
  case (Cons kv ds)
  let ?body = "\<lambda>date. bindE (py_getitem (PDict days) date) (\<lambda>day.
                   bindE (py_iter day) (\<lambda>objs. mapE (flatten_neo lib) objs))"
  from Cons.prems(2) obtain xs arrays' where
    xs: "items (snd kv) = Some xs" and l': "those (map (\<lambda>kv. items (snd kv)) ds) = Some arrays'"
    and l: "arrays = xs # arrays'"
    by (auto split: option.splits)
  from Cons.prems(1) have sub: "set ds \<subseteq> set days" and kv: "kv \<in> set days" by simp_all
  have day: "?body (PStr (fst kv)) = mapE (flatten_neo lib) xs"
    using day_lookup [OF assms(1) kv] items_Some [OF xs] by (simp add: bindE_Inr)
  have unroll: "mapE ?body (map (\<lambda>kv. PStr (fst kv)) (kv # ds)) =
      bindE (mapE (flatten_neo lib) xs) (\<lambda>y.
      bindE (mapE ?body (map (\<lambda>kv. PStr (fst kv)) ds)) (\<lambda>ys. Inr (y # ys)))"
    unfolding day [symmetric] by (simp only: list.simps(9) mapE.simps)
  from Cons.prems(3) have eq: "xs @ concat arrays' = pre @ obj # post"
    by (simp add: l)
  then consider q where "xs = pre @ obj # q"
    | pre' where "pre = xs @ pre'" "concat arrays' = pre' @ obj # post"
    by (auto simp: append_eq_append_conv2 append_eq_Cons_conv Cons_eq_append_conv)
  then show ?case
  proof cases
    case 1
    have "mapE (flatten_neo lib) pre = Inr (map (zip neo_columns) cellss)"
      using Cons.prems(4) by (rule mapE_those) (rule flatten_neo_refines)
    then have "mapE (flatten_neo lib) xs = Inl e"
      unfolding 1 using assms(2) by (rule mapE_stops)
    then show ?thesis
      unfolding unroll by (simp add: bindE_Inl)
  next
    case 2
    from Cons.prems(4) have "those (map (spec_record lib) xs @ map (spec_record lib) pre') = Some cellss"
      by (simp add: 2(1))
    from those_append_Some [OF this] obtain c1 c2 where
      c1: "those (map (spec_record lib) xs) = Some c1"
      and c2: "those (map (spec_record lib) pre') = Some c2"
      by blast
    have ok: "mapE (flatten_neo lib) xs = Inr (map (zip neo_columns) c1)"
      using c1 by (rule mapE_those) (rule flatten_neo_refines)
    have rest: "mapE ?body (map (\<lambda>kv. PStr (fst kv)) ds) = Inl e"
      using Cons.IH [OF sub l' 2(2) c2] .
    show ?thesis
      unfolding unroll ok rest by (simp add: bindE_Inr bindE_Inl)
  qed
qed

text \<open>
  Claim C7. If an object of the feed has an empty close-approach list, the objects before
  it being well shaped and its own kilometre diameters present, the live fetcher raises
  IndexError: it returns no table, and the render, unless the static loader has already
  faulted, ends with that IndexError and produces nothing.
\<close>

theorem empty_approach_aborts:
  assumes "feed_objects api_data = Some (pre @ obj # post)"
    and "those (map (spec_record lib) pre) = Some cellss"
    and "field obj ''estimated_diameter'' = Some dia"
    and "field dia ''kilometers'' = Some km"
    and "field obj ''close_approach_data'' = Some (PList [])"
  shows "fetch_nasa_data lib api_data = Inl IndexError \<and>
     (\<forall>file_df sel. run_script lib file_df api_data sel =
        (case load_static_data lib file_df of Inl e \<Rightarrow> Inl e | Inr s \<Rightarrow> Inl IndexError))"
proof -
  from assms(1) obtain days arrays where
    top: "field api_data ''near_earth_objects'' = Some (PDict days)"
    and dist: "distinct (map fst days)"
    and arrays: "those (map (\<lambda>kv. items (snd kv)) days) = Some arrays"
    and objs: "concat arrays = pre @ obj # post"
    unfolding feed_objects_def
    by (auto split: option.splits pyval.splits if_splits)
  have bad: "flatten_neo lib obj = Inl IndexError"
    using assms(3-5) by (rule flatten_neo_empty_approach)
  have loop: "mapE (\<lambda>date. bindE (py_getitem (PDict days) date) (\<lambda>day.
                   bindE (py_iter day) (\<lambda>objs. mapE (flatten_neo lib) objs)))
          (map (\<lambda>kv. PStr (fst kv)) days) = Inl IndexError"
    using outer_loop_stops [OF dist bad _ arrays objs assms(2)] by simp
  have fetch: "fetch_nasa_data lib api_data = Inl IndexError"
    unfolding fetch_nasa_data_def
    by (simp add: field_getitem [OF top] bindE_Inr bindE_Inl loop)
  have "run_script lib file_df api_data sel =
        (case load_static_data lib file_df of Inl e \<Rightarrow> Inl e | Inr s \<Rightarrow> Inl IndexError)"
    for file_df sel
    by (cases "load_static_data lib file_df")
      (simp_all add: run_script_def load_and_combine_def fetch bindE_Inr bindE_Inl)
  with fetch show ?thesis by blast
qed

theorem empty_approach_aborts_witness:
  "feed_objects (demo_feed []) = Some ([] @ demo_neo [] # []) \<and>
   fetch_nasa_data demo_lib (demo_feed []) = Inl IndexError \<and>
   run_script demo_lib demo_file (demo_feed []) ''All'' = Inl IndexError"
proof -
  have a: "feed_objects (demo_feed [] :: rat pyval) = Some ([] @ demo_neo [] # [])"
    by (simp add: feed_objects_def demo_feed_def)
  have b: "those (map (spec_record demo_lib) []) = Some []"
    by simp
  have c: "field (demo_neo []) ''estimated_diameter'' =
      Some (PDict [
        (''kilometers'', PDict [(''estimated_diameter_min'', PFloat (Val (1 / 10))),
                               (''estimated_diameter_max'', PFloat (Val (3 / 10)))]),
        (''meters'', PDict [(''estimated_diameter_min'', PFloat (Val 100)),
                           (''estimated_diameter_max'', PFloat (Val 300))])])"
    by (simp add: demo_neo_def)
  have d: "field (PDict [
        (''kilometers'', PDict [(''estimated_diameter_min'', PFloat (Val (1 / 10))),
                               (''estimated_diameter_max'', PFloat (Val (3 / 10)))]),
        (''meters'', PDict [(''estimated_diameter_min'', PFloat (Val 100)),
                           (''estimated_diameter_max'', PFloat (Val (300::rat)))])]) ''kilometers'' =
      Some (PDict [(''estimated_diameter_min'', PFloat (Val (1 / 10))),
                   (''estimated_diameter_max'', PFloat (Val (3 / 10)))])"
    by simp
  have e: "field (demo_neo [] :: rat pyval) ''close_approach_data'' = Some (PList [])"
    by (simp add: demo_neo_def)
  from empty_approach_aborts [OF a b c d e] a demo_load show ?thesis
    by simp
qed

section \<open>Reading back what the writer wrote\<close>












section \<open>The export of a render\<close>






end
